theory Spec2Isabelle
  imports Main "HOL-Library.Word"
begin

section \<open>The MicroService reconciler\<close>

text \<open>
  A shallow embedding of \<^verbatim>\<open>MicroServiceReconciler.Reconcile\<close>, the version that builds
  a Deployment, a Service and an Ingress (the file with the three \<^verbatim>\<open>r.Create\<close> calls).
  Go structs are records whose fields are named \<^verbatim>\<open>Struct_Field\<close>, the Go \<^verbatim>\<open>error\<close>
  interface is \<open>error option\<close> (\<open>None\<close> is \<^verbatim>\<open>nil\<close>), \<^verbatim>\<open>int32\<close> is \<open>32 word\<close>, and
  \<^verbatim>\<open>map[string]string\<close> is \<open>string \<rightharpoonup> string\<close>. The embedded \<^verbatim>\<open>client.Client\<close> is a
  parameter of the model: a record of the two methods that \<^verbatim>\<open>Reconcile\<close> calls, acting on a
  world of any type. Every call made through it is recorded, in order.
\<close>

subsection \<open>Kubernetes API types, as far as the reconciler fills them in\<close>

record TypeMeta =
  TypeMeta_Kind :: string
  TypeMeta_APIVersion :: string

record OwnerReference =
  OwnerReference_APIVersion :: string
  OwnerReference_Kind :: string
  OwnerReference_Name :: string
  OwnerReference_UID :: string

text \<open>
  \<^verbatim>\<open>metav1.ObjectMeta\<close>: the reconciler's struct literals set \<^verbatim>\<open>Name\<close>, \<^verbatim>\<open>Namespace\<close> and
  (on the pod template) \<^verbatim>\<open>Labels\<close>; a field a Go literal leaves out has its zero value,
  which for \<^verbatim>\<open>OwnerReferences\<close> is the empty slice.
\<close>

record ObjectMeta =
  ObjectMeta_Name :: string
  ObjectMeta_Namespace :: string
  ObjectMeta_Labels :: "string \<rightharpoonup> string"
  ObjectMeta_OwnerReferences :: "OwnerReference list"

record NamespacedName =
  NamespacedName_Namespace :: string
  NamespacedName_Name :: string

record Request =
  Request_NamespacedName :: NamespacedName

definition Request_Name :: "Request \<Rightarrow> string" where
  "Request_Name req = NamespacedName_Name (Request_NamespacedName req)"

definition Request_Namespace :: "Request \<Rightarrow> string" where
  "Request_Namespace req = NamespacedName_Namespace (Request_NamespacedName req)"

record Result =
  Result_Requeue :: bool
  Result_RequeueAfter :: int

text \<open>The Go composite literal \<^verbatim>\<open>ctrl.Result{}\<close>.\<close>

definition Result_zero :: Result where
  "Result_zero = \<lparr>Result_Requeue = False, Result_RequeueAfter = 0\<rparr>"

record LabelSelector =
  LabelSelector_MatchLabels :: "string \<rightharpoonup> string"

record LocalObjectReference =
  LocalObjectReference_Name :: string

record ContainerPort =
  ContainerPort_ContainerPort :: "32 word"

record Container =
  Container_Name :: string
  Container_Image :: string
  Container_ImagePullPolicy :: string
  Container_Ports :: "ContainerPort list"

record PodSpec =
  PodSpec_ImagePullSecrets :: "LocalObjectReference list"
  PodSpec_Containers :: "Container list"

record PodTemplateSpec =
  PodTemplateSpec_ObjectMeta :: ObjectMeta
  PodTemplateSpec_Spec :: PodSpec

record DeploymentSpec =
  DeploymentSpec_Selector :: "LabelSelector option"
  DeploymentSpec_Template :: PodTemplateSpec

record Deployment =
  Deployment_TypeMeta :: TypeMeta
  Deployment_ObjectMeta :: ObjectMeta
  Deployment_Spec :: DeploymentSpec

datatype IntOrString = IntVal "32 word" | StrVal string

text \<open>\<^verbatim>\<open>intstr.FromInt(val int)\<close> stores \<^verbatim>\<open>int32(val)\<close>.\<close>

definition FromInt :: "int \<Rightarrow> IntOrString" where
  "FromInt val = IntVal (word_of_int val)"

definition ProtocolTCP :: string where
  "ProtocolTCP = ''TCP''"

record ServicePort =
  ServicePort_Name :: string
  ServicePort_Port :: "32 word"
  ServicePort_TargetPort :: IntOrString
  ServicePort_Protocol :: string

record ServiceSpec =
  ServiceSpec_Selector :: "string \<rightharpoonup> string"
  ServiceSpec_Ports :: "ServicePort list"

record LoadBalancerStatus =
  LoadBalancerStatus_Ingress :: "string list"

record ServiceStatus =
  ServiceStatus_LoadBalancer :: LoadBalancerStatus

record Service =
  Service_TypeMeta :: TypeMeta
  Service_ObjectMeta :: ObjectMeta
  Service_Spec :: ServiceSpec
  Service_Status :: ServiceStatus

record IngressBackend =
  IngressBackend_ServiceName :: string
  IngressBackend_ServicePort :: IntOrString

record HTTPIngressPath =
  HTTPIngressPath_Path :: string
  HTTPIngressPath_Backend :: IngressBackend

record HTTPIngressRuleValue =
  HTTPIngressRuleValue_Paths :: "HTTPIngressPath list"

record IngressRuleValue =
  IngressRuleValue_HTTP :: "HTTPIngressRuleValue option"

record IngressRule =
  IngressRule_Host :: string
  IngressRule_IngressRuleValue :: IngressRuleValue

record IngressSpec =
  IngressSpec_Rules :: "IngressRule list"

record IngressStatus =
  IngressStatus_LoadBalancer :: LoadBalancerStatus

record Ingress =
  Ingress_TypeMeta :: TypeMeta
  Ingress_ObjectMeta :: ObjectMeta
  Ingress_Spec :: IngressSpec
  Ingress_Status :: IngressStatus

text \<open>The zero values \<^verbatim>\<open>corev1.ServiceStatus{}\<close> and \<^verbatim>\<open>v1beta1.IngressStatus{}\<close>.\<close>

definition ServiceStatus_zero :: ServiceStatus where
  "ServiceStatus_zero =
     \<lparr>ServiceStatus_LoadBalancer = \<lparr>LoadBalancerStatus_Ingress = []\<rparr>\<rparr>"

definition IngressStatus_zero :: IngressStatus where
  "IngressStatus_zero =
     \<lparr>IngressStatus_LoadBalancer = \<lparr>LoadBalancerStatus_Ingress = []\<rparr>\<rparr>"

subsection \<open>The declared resource\<close>

text \<open>
  Modelled from the spec: the type \<^verbatim>\<open>devopsv1.MicroService\<close> (package \<^verbatim>\<open>api/v1\<close>) is not
  among the sources. The spec gives its schema as
  \<^verbatim>\<open>{name, namespace, image: string, host: string, secret: optional string}\<close> plus the status
  \<^verbatim>\<open>{condition: Ready|Progressing|Error, message: string, observedGeneration: int}\<close>; the
  reconciler reads \<^verbatim>\<open>ms.Spec.Image\<close>, \<^verbatim>\<open>ms.Spec.Host\<close> and \<^verbatim>\<open>ms.Spec.Secret\<close> as strings, so
  an absent secret is the empty string.
\<close>

record MicroServiceSpec =
  MicroServiceSpec_Image :: string
  MicroServiceSpec_Host :: string
  MicroServiceSpec_Secret :: string

datatype Condition = ConditionReady | ConditionProgressing | ConditionError

record MicroServiceStatus =
  MicroServiceStatus_Condition :: Condition
  MicroServiceStatus_Message :: string
  MicroServiceStatus_ObservedGeneration :: int

record MicroService =
  MicroService_ObjectMeta :: ObjectMeta
  MicroService_Spec :: MicroServiceSpec
  MicroService_Status :: MicroServiceStatus

subsection \<open>Errors\<close>

text \<open>
  An error of the store client is an API status error with a reason, or any other error
  (a transport failure, say). \<^verbatim>\<open>apierrors.IsNotFound\<close> looks at the reason, and
  \<^verbatim>\<open>client.IgnoreNotFound\<close> returns \<^verbatim>\<open>nil\<close> on a not-found error and its argument otherwise.
\<close>

datatype StatusReason =
  StatusReasonUnknown | StatusReasonNotFound | StatusReasonAlreadyExists
  | StatusReasonConflict | StatusReasonInvalid | StatusReasonForbidden
  | StatusReasonServiceUnavailable | StatusReasonTimeout

datatype error = StatusError StatusReason | OtherError string

fun IsNotFound :: "error \<Rightarrow> bool" where
  "IsNotFound (StatusError reason) = (reason = StatusReasonNotFound)"
| "IsNotFound (OtherError msg) = False"

fun IgnoreNotFound :: "error option \<Rightarrow> error option" where
  "IgnoreNotFound None = None"
| "IgnoreNotFound (Some e) = (if IsNotFound e then None else Some e)"

subsection \<open>The store client and what a pass does through it\<close>

datatype Object = DeploymentObj Deployment | ServiceObj Service | IngressObj Ingress

fun Object_ObjectMeta :: "Object \<Rightarrow> ObjectMeta" where
  "Object_ObjectMeta (DeploymentObj d) = Deployment_ObjectMeta d"
| "Object_ObjectMeta (ServiceObj s) = Service_ObjectMeta s"
| "Object_ObjectMeta (IngressObj i) = Ingress_ObjectMeta i"

text \<open>
  The two methods of \<^verbatim>\<open>client.Client\<close> that \<^verbatim>\<open>Reconcile\<close> calls. \<^verbatim>\<open>Get\<close> is only called
  for the \<^verbatim>\<open>MicroService\<close> kind: it returns the error or the object it read.
  \<^verbatim>\<open>Create\<close> returns the error, if any. Both also return the world after the call.
\<close>

record 'w Client =
  Get :: "NamespacedName \<Rightarrow> 'w \<Rightarrow> (error + MicroService) \<times> 'w"
  Create :: "Object \<Rightarrow> 'w \<Rightarrow> error option \<times> 'w"

text \<open>
  The calls a reconciler can make on the store client (the surface the spec lists:
  get, create, update, delete and the status subresource's update). All but \<open>CallGet\<close>
  are mutating.
\<close>

datatype Call =
  CallGet NamespacedName
  | CallCreate Object
  | CallUpdate Object
  | CallDelete Object
  | CallStatusUpdate MicroService

fun mutating :: "Call \<Rightarrow> bool" where
  "mutating (CallGet nn) = False"
| "mutating (CallCreate obj) = True"
| "mutating (CallUpdate obj) = True"
| "mutating (CallDelete obj) = True"
| "mutating (CallStatusUpdate ms) = True"

fun is_get_or_create :: "Call \<Rightarrow> bool" where
  "is_get_or_create (CallGet nn) = True"
| "is_get_or_create (CallCreate obj) = True"
| "is_get_or_create (CallUpdate obj) = False"
| "is_get_or_create (CallDelete obj) = False"
| "is_get_or_create (CallStatusUpdate ms) = False"

fun is_status_write :: "Call \<Rightarrow> bool" where
  "is_status_write (CallStatusUpdate ms) = True"
| "is_status_write (CallGet nn) = False"
| "is_status_write (CallCreate obj) = False"
| "is_status_write (CallUpdate obj) = False"
| "is_status_write (CallDelete obj) = False"

text \<open>The objects a list of calls asked the store to create, in order.\<close>

fun created :: "Call list \<Rightarrow> Object list" where
  "created [] = []"
| "created (CallCreate obj # cs) = obj # created cs"
| "created (CallGet nn # cs) = created cs"
| "created (CallUpdate obj # cs) = created cs"
| "created (CallDelete obj # cs) = created cs"
| "created (CallStatusUpdate ms # cs) = created cs"

text \<open>
  The six log statements of \<^verbatim>\<open>Reconcile\<close>, by call site (their texts are not ASCII):
  \<open>MsgNoResource\<close> is "no resource microservice, entering the life cycle after a
  successful deletion", \<open>MsgUnexpected\<close> is "unexpected error", \<open>MsgMainFlow\<close> is
  "MicroService created, entering the main flow from the resource", and the last three
  are "error creating the deployment / service / Ingress resource".
\<close>

datatype LogMsg =
  MsgNoResource | MsgUnexpected | MsgMainFlow
  | MsgCreateDeployment | MsgCreateService | MsgCreateIngress

datatype LogEntry = LogInfo LogMsg | LogError "error option" LogMsg

text \<open>
  One invocation of \<^verbatim>\<open>Reconcile\<close>: the two values it returns, the store client calls it
  made, what it logged, and the world it left.
\<close>

record 'w Run =
  ret_Result :: Result
  ret_err :: "error option"
  calls :: "Call list"
  logs :: "LogEntry list"
  world :: 'w

subsection \<open>The desired dependent resources\<close>

text \<open>\<^verbatim>\<open>podLabels := map[string]string{"app": req.Name}\<close>\<close>

definition podLabels :: "Request \<Rightarrow> (string \<rightharpoonup> string)" where
  "podLabels req = [''app'' \<mapsto> Request_Name req]"

text \<open>The three struct literals of \<^verbatim>\<open>Reconcile\<close>, field by field.\<close>

definition deployment :: "Request \<Rightarrow> MicroService \<Rightarrow> Deployment" where
  "deployment req ms =
     \<lparr>Deployment_TypeMeta =
        \<lparr>TypeMeta_Kind = ''Deployment'', TypeMeta_APIVersion = ''apps/v1''\<rparr>,
      Deployment_ObjectMeta =
        \<lparr>ObjectMeta_Name = Request_Name req,
         ObjectMeta_Namespace = Request_Namespace req,
         ObjectMeta_Labels = Map.empty,
         ObjectMeta_OwnerReferences = []\<rparr>,
      Deployment_Spec =
        \<lparr>DeploymentSpec_Selector =
           Some \<lparr>LabelSelector_MatchLabels = podLabels req\<rparr>,
         DeploymentSpec_Template =
           \<lparr>PodTemplateSpec_ObjectMeta =
              \<lparr>ObjectMeta_Name = '''',
               ObjectMeta_Namespace = '''',
               ObjectMeta_Labels = podLabels req,
               ObjectMeta_OwnerReferences = []\<rparr>,
            PodTemplateSpec_Spec =
              \<lparr>PodSpec_ImagePullSecrets =
                 [\<lparr>LocalObjectReference_Name = MicroServiceSpec_Secret (MicroService_Spec ms)\<rparr>],
               PodSpec_Containers =
                 [\<lparr>Container_Name = Request_Name req,
                   Container_Image = MicroServiceSpec_Image (MicroService_Spec ms),
                   Container_ImagePullPolicy = ''Always'',
                   Container_Ports = [\<lparr>ContainerPort_ContainerPort = 8080\<rparr>]\<rparr>]\<rparr>\<rparr>\<rparr>\<rparr>"

definition service :: "Request \<Rightarrow> Service" where
  "service req =
     \<lparr>Service_TypeMeta = \<lparr>TypeMeta_Kind = ''Service'', TypeMeta_APIVersion = ''v1''\<rparr>,
      Service_ObjectMeta =
        \<lparr>ObjectMeta_Name = Request_Name req,
         ObjectMeta_Namespace = Request_Namespace req,
         ObjectMeta_Labels = Map.empty,
         ObjectMeta_OwnerReferences = []\<rparr>,
      Service_Spec =
        \<lparr>ServiceSpec_Selector = podLabels req,
         ServiceSpec_Ports =
           [\<lparr>ServicePort_Name = Request_Name req,
             ServicePort_Port = 80,
             ServicePort_TargetPort = FromInt 8080,
             ServicePort_Protocol = ProtocolTCP\<rparr>]\<rparr>,
      Service_Status = ServiceStatus_zero\<rparr>"

definition ingress :: "Request \<Rightarrow> MicroService \<Rightarrow> Ingress" where
  "ingress req ms =
     \<lparr>Ingress_TypeMeta = \<lparr>TypeMeta_Kind = ''Ingress'', TypeMeta_APIVersion = ''v1''\<rparr>,
      Ingress_ObjectMeta =
        \<lparr>ObjectMeta_Name = Request_Name req,
         ObjectMeta_Namespace = Request_Namespace req,
         ObjectMeta_Labels = Map.empty,
         ObjectMeta_OwnerReferences = []\<rparr>,
      Ingress_Spec =
        \<lparr>IngressSpec_Rules =
           [\<lparr>IngressRule_Host = MicroServiceSpec_Host (MicroService_Spec ms),
             IngressRule_IngressRuleValue =
               \<lparr>IngressRuleValue_HTTP =
                  Some \<lparr>HTTPIngressRuleValue_Paths =
                    [\<lparr>HTTPIngressPath_Path = ''/'',
                      HTTPIngressPath_Backend =
                        \<lparr>IngressBackend_ServiceName = Request_Name req,
                         IngressBackend_ServicePort = FromInt 80\<rparr>\<rparr>]\<rparr>\<rparr>\<rparr>]\<rparr>,
      Ingress_Status = IngressStatus_zero\<rparr>"

subsection \<open>Reconcile\<close>

text \<open>
  The function, return by return. In the fetch's error branch the Go code declares a
  second \<^verbatim>\<open>err\<close>, the result of \<^verbatim>\<open>client.IgnoreNotFound(err)\<close>, whose scope is the whole
  \<^verbatim>\<open>if\<close> statement: the \<^verbatim>\<open>else\<close> branch logs and returns that inner variable, which is
  \<^verbatim>\<open>nil\<close> there. It is \<open>err'\<close> below.
\<close>

definition Reconcile :: "'w Client \<Rightarrow> Request \<Rightarrow> 'w \<Rightarrow> 'w Run" where
  "Reconcile r req w0 =
    (case Get r (Request_NamespacedName req) w0 of
       (Inl e, w1) \<Rightarrow>
         (let err' = IgnoreNotFound (Some e) in
          if err' \<noteq> None
          then \<lparr>ret_Result = Result_zero, ret_err = None,
                calls = [CallGet (Request_NamespacedName req)],
                logs = [LogInfo MsgNoResource],
                world = w1\<rparr>
          else \<lparr>ret_Result = Result_zero, ret_err = err',
                calls = [CallGet (Request_NamespacedName req)],
                logs = [LogError err' MsgUnexpected],
                world = w1\<rparr>)
     | (Inr ms, w1) \<Rightarrow>
         (case Create r (DeploymentObj (deployment req ms)) w1 of
            (Some e, w2) \<Rightarrow>
              \<lparr>ret_Result = Result_zero, ret_err = None,
               calls = [CallGet (Request_NamespacedName req),
                        CallCreate (DeploymentObj (deployment req ms))],
               logs = [LogInfo MsgMainFlow, LogError (Some e) MsgCreateDeployment],
               world = w2\<rparr>
          | (None, w2) \<Rightarrow>
              (case Create r (ServiceObj (service req)) w2 of
                 (Some e, w3) \<Rightarrow>
                   \<lparr>ret_Result = Result_zero, ret_err = Some e,
                    calls = [CallGet (Request_NamespacedName req),
                             CallCreate (DeploymentObj (deployment req ms)),
                             CallCreate (ServiceObj (service req))],
                    logs = [LogInfo MsgMainFlow, LogError (Some e) MsgCreateService],
                    world = w3\<rparr>
               | (None, w3) \<Rightarrow>
                   (case Create r (IngressObj (ingress req ms)) w3 of
                      (Some e, w4) \<Rightarrow>
                        \<lparr>ret_Result = Result_zero, ret_err = None,
                         calls = [CallGet (Request_NamespacedName req),
                                  CallCreate (DeploymentObj (deployment req ms)),
                                  CallCreate (ServiceObj (service req)),
                                  CallCreate (IngressObj (ingress req ms))],
                         logs = [LogInfo MsgMainFlow, LogError (Some e) MsgCreateIngress],
                         world = w4\<rparr>
                    | (None, w4) \<Rightarrow>
                        \<lparr>ret_Result = Result_zero, ret_err = None,
                         calls = [CallGet (Request_NamespacedName req),
                                  CallCreate (DeploymentObj (deployment req ms)),
                                  CallCreate (ServiceObj (service req)),
                                  CallCreate (IngressObj (ingress req ms))],
                         logs = [LogInfo MsgMainFlow],
                         world = w4\<rparr>))))"

text \<open>
  \<open>n\<close> invocations for the same request, one after the other, each on the world the
  previous one left: all the calls made, and the last world.
\<close>

fun Reconcile_times :: "nat \<Rightarrow> 'w Client \<Rightarrow> Request \<Rightarrow> 'w \<Rightarrow> Call list \<times> 'w" where
  "Reconcile_times 0 r req w = ([], w)"
| "Reconcile_times (Suc n) r req w =
     (case Reconcile_times n r req (world (Reconcile r req w)) of
        (cs, w') \<Rightarrow> (calls (Reconcile r req w) @ cs, w'))"

subsection \<open>A store to run the reconciler against\<close>

text \<open>
  The store behind the client is not code of this repository. Where a concrete store is
  needed, this one stands for its contract: objects of the four kinds keyed by namespace
  and name; \<open>Get\<close> reads and reports not-found for an absent key; \<open>Create\<close> adds an
  object under a free key and is refused with already-exists under a taken one.
\<close>

record Store =
  microservices :: "NamespacedName \<rightharpoonup> MicroService"
  deployments :: "NamespacedName \<rightharpoonup> Deployment"
  services :: "NamespacedName \<rightharpoonup> Service"
  ingresses :: "NamespacedName \<rightharpoonup> Ingress"

definition key_of :: "ObjectMeta \<Rightarrow> NamespacedName" where
  "key_of m =
     \<lparr>NamespacedName_Namespace = ObjectMeta_Namespace m,
      NamespacedName_Name = ObjectMeta_Name m\<rparr>"

definition store_Get :: "NamespacedName \<Rightarrow> Store \<Rightarrow> (error + MicroService) \<times> Store" where
  "store_Get nn s =
     (case microservices s nn of
        None \<Rightarrow> (Inl (StatusError StatusReasonNotFound), s)
      | Some ms \<Rightarrow> (Inr ms, s))"

fun store_Create :: "Object \<Rightarrow> Store \<Rightarrow> error option \<times> Store" where
  "store_Create (DeploymentObj d) s =
     (case deployments s (key_of (Deployment_ObjectMeta d)) of
        Some old \<Rightarrow> (Some (StatusError StatusReasonAlreadyExists), s)
      | None \<Rightarrow>
          (None, s\<lparr>deployments := (deployments s)(key_of (Deployment_ObjectMeta d) \<mapsto> d)\<rparr>))"
| "store_Create (ServiceObj v) s =
     (case services s (key_of (Service_ObjectMeta v)) of
        Some old \<Rightarrow> (Some (StatusError StatusReasonAlreadyExists), s)
      | None \<Rightarrow>
          (None, s\<lparr>services := (services s)(key_of (Service_ObjectMeta v) \<mapsto> v)\<rparr>))"
| "store_Create (IngressObj i) s =
     (case ingresses s (key_of (Ingress_ObjectMeta i)) of
        Some old \<Rightarrow> (Some (StatusError StatusReasonAlreadyExists), s)
      | None \<Rightarrow>
          (None, s\<lparr>ingresses := (ingresses s)(key_of (Ingress_ObjectMeta i) \<mapsto> i)\<rparr>))"

definition store_client :: "Store Client" where
  "store_client = \<lparr>Get = store_Get, Create = store_Create\<rparr>"

text \<open>A client whose store cannot be reached: every call fails with the given error.\<close>

definition failing_client :: "error \<Rightarrow> Store Client" where
  "failing_client e = \<lparr>Get = (\<lambda>nn s. (Inl e, s)), Create = (\<lambda>obj s. (Some e, s))\<rparr>"

text \<open>
  A client that reads the store but whose every \<open>Create\<close> is refused with the given
  error (the controller lacks the permission, say).
\<close>

definition refusing_client :: "error \<Rightarrow> Store Client" where
  "refusing_client e = \<lparr>Get = store_Get, Create = (\<lambda>obj s. (Some e, s))\<rparr>"

text \<open>
  The state the spec calls converged: the declared resource exists, and the three
  dependent resources exist under its key and equal what the reconciler builds for it.
\<close>

definition converged :: "Request \<Rightarrow> Store \<Rightarrow> bool" where
  "converged req s =
     (case microservices s (Request_NamespacedName req) of
        None \<Rightarrow> False
      | Some ms \<Rightarrow>
          deployments s (Request_NamespacedName req) = Some (deployment req ms) \<and>
          services s (Request_NamespacedName req) = Some (service req) \<and>
          ingresses s (Request_NamespacedName req) = Some (ingress req ms))"

subsection \<open>The scenario of the spec\<close>

definition req_foo :: Request where
  "req_foo =
     \<lparr>Request_NamespacedName =
        \<lparr>NamespacedName_Namespace = ''default'', NamespacedName_Name = ''foo''\<rparr>\<rparr>"

definition ms_foo :: MicroService where
  "ms_foo =
     \<lparr>MicroService_ObjectMeta =
        \<lparr>ObjectMeta_Name = ''foo'', ObjectMeta_Namespace = ''default'',
         ObjectMeta_Labels = Map.empty, ObjectMeta_OwnerReferences = []\<rparr>,
      MicroService_Spec =
        \<lparr>MicroServiceSpec_Image = ''app:1.0'',
         MicroServiceSpec_Host = ''foo.example.com'',
         MicroServiceSpec_Secret = ''''\<rparr>,
      MicroService_Status =
        \<lparr>MicroServiceStatus_Condition = ConditionProgressing,
         MicroServiceStatus_Message = '''',
         MicroServiceStatus_ObservedGeneration = 0\<rparr>\<rparr>"

text \<open>No object at all; only the declared resource; and the converged state.\<close>

definition store_empty :: Store where
  "store_empty =
     \<lparr>microservices = Map.empty, deployments = Map.empty,
      services = Map.empty, ingresses = Map.empty\<rparr>"

definition store_foo :: Store where
  "store_foo =
     store_empty\<lparr>microservices := [Request_NamespacedName req_foo \<mapsto> ms_foo]\<rparr>"

definition store_foo_converged :: Store where
  "store_foo_converged =
     \<lparr>microservices = [Request_NamespacedName req_foo \<mapsto> ms_foo],
      deployments = [Request_NamespacedName req_foo \<mapsto> deployment req_foo ms_foo],
      services = [Request_NamespacedName req_foo \<mapsto> service req_foo],
      ingresses = [Request_NamespacedName req_foo \<mapsto> ingress req_foo ms_foo]\<rparr>"

text \<open>The declared resource and a Service of its name, but no Deployment.\<close>

definition store_foo_service :: Store where
  "store_foo_service =
     store_foo\<lparr>services := [Request_NamespacedName req_foo \<mapsto> service req_foo]\<rparr>"

section \<open>Properties\<close>

lemma key_of_deployment [simp]:
  "key_of (Deployment_ObjectMeta (deployment req ms)) = Request_NamespacedName req"
  by (simp add: key_of_def deployment_def Request_Name_def Request_Namespace_def)

lemma key_of_service [simp]:
  "key_of (Service_ObjectMeta (service req)) = Request_NamespacedName req"
  by (simp add: key_of_def service_def Request_Name_def Request_Namespace_def)

lemma key_of_ingress [simp]:
  "key_of (Ingress_ObjectMeta (ingress req ms)) = Request_NamespacedName req"
  by (simp add: key_of_def ingress_def Request_Name_def Request_Namespace_def)

lemma Get_store_client [simp]: "Get store_client = store_Get"
  by (simp add: store_client_def)

lemma Create_store_client [simp]: "Create store_client = store_Create"
  by (simp add: store_client_def)

text \<open>The pass of the scenario: the declared resource exists and nothing else does.\<close>

lemma Reconcile_store_foo:
  "Reconcile store_client req_foo store_foo =
     \<lparr>ret_Result = Result_zero, ret_err = None,
      calls = [CallGet (Request_NamespacedName req_foo),
               CallCreate (DeploymentObj (deployment req_foo ms_foo)),
               CallCreate (ServiceObj (service req_foo)),
               CallCreate (IngressObj (ingress req_foo ms_foo))],
      logs = [LogInfo MsgMainFlow],
      world = store_foo_converged\<rparr>"
  by (simp add: Reconcile_def store_Get_def store_foo_def store_empty_def
        store_foo_converged_def)

text \<open>A pass that finds the Deployment in the store stops there and changes nothing.\<close>

lemma Reconcile_deployment_exists:
  assumes "microservices s (Request_NamespacedName req) = Some ms"
      and "deployments s (Request_NamespacedName req) = Some d"
  shows "Reconcile store_client req s =
           \<lparr>ret_Result = Result_zero, ret_err = None,
            calls = [CallGet (Request_NamespacedName req),
                     CallCreate (DeploymentObj (deployment req ms))],
            logs = [LogInfo MsgMainFlow,
                    LogError (Some (StatusError StatusReasonAlreadyExists)) MsgCreateDeployment],
            world = s\<rparr>"
  using assms by (simp add: Reconcile_def store_Get_def)

lemma Reconcile_times_deployment_exists:
  assumes "microservices s (Request_NamespacedName req) = Some ms"
      and "deployments s (Request_NamespacedName req) = Some d"
  shows "Reconcile_times n store_client req s =
           (concat (replicate n [CallGet (Request_NamespacedName req),
                                 CallCreate (DeploymentObj (deployment req ms))]), s)"
  by (induction n) (simp_all add: Reconcile_deployment_exists [OF assms])

text \<open>On the store, a pass never changes a declared resource nor an object that exists.\<close>

lemma Reconcile_store_frame:
  "microservices (world (Reconcile store_client req s)) = microservices s \<and>
   deployments s \<subseteq>\<^sub>m deployments (world (Reconcile store_client req s)) \<and>
   services s \<subseteq>\<^sub>m services (world (Reconcile store_client req s)) \<and>
   ingresses s \<subseteq>\<^sub>m ingresses (world (Reconcile store_client req s))"
  by (auto simp: Reconcile_def Let_def store_Get_def map_le_def
           split: prod.splits sum.splits option.splits)

subsection \<open>The fetch\<close>

text \<open>
  Claim C5 (benign not-found). When the fetch of the declared resource reports not-found,
  \<open>Reconcile\<close> returns a nil error and a Result that asks for no requeue, and the fetch is
  the only call it makes on the store client: no mutating call.
\<close>

theorem Reconcile_not_found:
  assumes "Get r (Request_NamespacedName req) w = (Inl e, w')" and "IsNotFound e"
  shows "ret_err (Reconcile r req w) = None \<and>
         Result_Requeue (ret_Result (Reconcile r req w)) = False \<and>
         Result_RequeueAfter (ret_Result (Reconcile r req w)) = 0 \<and>
         calls (Reconcile r req w) = [CallGet (Request_NamespacedName req)] \<and>
         filter mutating (calls (Reconcile r req w)) = []"
  using assms by (simp add: Reconcile_def Result_zero_def)

theorem Reconcile_not_found_witness:
  "IsNotFound (StatusError StatusReasonNotFound) \<and>
   ret_err (Reconcile store_client req_foo store_empty) = None \<and>
   Result_Requeue (ret_Result (Reconcile store_client req_foo store_empty)) = False \<and>
   Result_RequeueAfter (ret_Result (Reconcile store_client req_foo store_empty)) = 0 \<and>
   filter mutating (calls (Reconcile store_client req_foo store_empty)) = []"
proof -
  have g: "Get store_client (Request_NamespacedName req_foo) store_empty =
             (Inl (StatusError StatusReasonNotFound), store_empty)"
    by (simp add: store_Get_def store_empty_def)
  have n: "IsNotFound (StatusError StatusReasonNotFound)" by simp
  from Reconcile_not_found [OF g n] n show ?thesis by simp
qed

text \<open>
  Claim C6 (a transient fetch failure triggers a retry). The code does not do this. With
  a store that cannot be reached, the fetch fails with service-unavailable;
  \<open>IgnoreNotFound\<close> leaves that error as it is, so the pass takes the branch that logs
  "no resource microservice" and returns a nil error with the zero Result: success, and
  no retry.
\<close>

theorem Reconcile_fetch_unavailable_reports_success:
  "ret_err (Reconcile (failing_client (StatusError StatusReasonServiceUnavailable))
      req_foo store_foo) = None \<and>
   ret_Result (Reconcile (failing_client (StatusError StatusReasonServiceUnavailable))
      req_foo store_foo) = \<lparr>Result_Requeue = False, Result_RequeueAfter = 0\<rparr> \<and>
   logs (Reconcile (failing_client (StatusError StatusReasonServiceUnavailable))
      req_foo store_foo) = [LogInfo MsgNoResource]"
  by (simp add: Reconcile_def failing_client_def Result_zero_def)

text \<open>
  Claim C10 (result shape). Every return path of \<open>Reconcile\<close> yields the zero Result (no
  requeue flag, no requeue-after duration), and the pass returns a non-nil error \<open>e\<close>
  exactly when the fetch succeeded, the Deployment was created and the creation of the
  Service failed with \<open>e\<close>.
\<close>

theorem Reconcile_result_shape:
  "ret_Result (Reconcile r req w) = \<lparr>Result_Requeue = False, Result_RequeueAfter = 0\<rparr> \<and>
   (ret_err (Reconcile r req w) = Some e) =
     (\<exists>ms w1 w2 w3.
        Get r (Request_NamespacedName req) w = (Inr ms, w1) \<and>
        Create r (DeploymentObj (deployment req ms)) w1 = (None, w2) \<and>
        Create r (ServiceObj (service req)) w2 = (Some e, w3))"
  by (auto simp: Reconcile_def Let_def Result_zero_def split: prod.splits sum.splits option.splits)

theorem Reconcile_result_shape_witness:
  "ret_err (Reconcile store_client req_foo store_foo_service) =
     Some (StatusError StatusReasonAlreadyExists) \<and>
   ret_Result (Reconcile store_client req_foo store_foo_service) =
     \<lparr>Result_Requeue = False, Result_RequeueAfter = 0\<rparr>"
proof -
  let ?w2 = "snd (Create store_client (DeploymentObj (deployment req_foo ms_foo)) store_foo_service)"
  let ?w3 = "snd (Create store_client (ServiceObj (service req_foo)) ?w2)"
  have g: "Get store_client (Request_NamespacedName req_foo) store_foo_service =
             (Inr ms_foo, store_foo_service)"
    by (simp add: store_Get_def store_foo_service_def store_foo_def store_empty_def)
  have d: "Create store_client (DeploymentObj (deployment req_foo ms_foo)) store_foo_service =
             (None, ?w2)"
    by (simp add: store_foo_service_def store_foo_def store_empty_def)
  have s: "Create store_client (ServiceObj (service req_foo)) ?w2 =
             (Some (StatusError StatusReasonAlreadyExists), ?w3)"
    by (simp add: store_foo_service_def store_foo_def store_empty_def)
  from g d s have "\<exists>ms w1 w2 w3.
        Get store_client (Request_NamespacedName req_foo) store_foo_service = (Inr ms, w1) \<and>
        Create store_client (DeploymentObj (deployment req_foo ms)) w1 = (None, w2) \<and>
        Create store_client (ServiceObj (service req_foo)) w2 =
          (Some (StatusError StatusReasonAlreadyExists), w3)"
    by blast
  with Reconcile_result_shape [of store_client req_foo store_foo_service
      "StatusError StatusReasonAlreadyExists"]
  show ?thesis by simp
qed

subsection \<open>The calls a pass makes\<close>

text \<open>
  Claim C9 (frame). Whatever the client and the world, \<open>Reconcile\<close> makes only get and
  create calls, never an update, a delete or a status write: its mutating calls are its
  creations. On the store, a pass therefore leaves every declared resource as it was
  (spec and status), and every dependent resource that existed before is still there,
  unchanged.
\<close>

theorem Reconcile_only_gets_and_creates:
  "list_all is_get_or_create (calls (Reconcile r req w)) \<and>
   filter mutating (calls (Reconcile r req w)) =
     map CallCreate (created (calls (Reconcile r req w))) \<and>
   microservices (world (Reconcile store_client req s)) = microservices s \<and>
   deployments s \<subseteq>\<^sub>m deployments (world (Reconcile store_client req s)) \<and>
   services s \<subseteq>\<^sub>m services (world (Reconcile store_client req s)) \<and>
   ingresses s \<subseteq>\<^sub>m ingresses (world (Reconcile store_client req s))"
proof -
  have "list_all is_get_or_create (calls (Reconcile r req w))"
    by (simp add: Reconcile_def Let_def split: prod.splits sum.splits option.splits)
  moreover have "filter mutating (calls (Reconcile r req w)) =
     map CallCreate (created (calls (Reconcile r req w)))"
    by (simp add: Reconcile_def Let_def split: prod.splits sum.splits option.splits)
  ultimately show ?thesis using Reconcile_store_frame [of req s] by simp
qed

text \<open>
  Claim C1 (idempotence), as stated: on a converged store \<open>Reconcile\<close> makes no mutating
  call. It fails: the pass has no read of the dependent resources and no comparison, it
  always asks the store to create the Deployment.
\<close>

theorem Reconcile_converged_counterexample:
  "converged req_foo store_foo_converged \<and>
   filter mutating (calls (Reconcile store_client req_foo store_foo_converged)) =
     [CallCreate (DeploymentObj (deployment req_foo ms_foo))] \<and>
   filter mutating (calls (Reconcile store_client req_foo store_foo_converged)) \<noteq> []"
  by (simp add: converged_def store_foo_converged_def Reconcile_def store_Get_def)

text \<open>
  Claim C1, amended. For a declared resource whose three dependent resources exist and
  match the desired state, a pass makes exactly one mutating call, the creation of the
  Deployment, which the store refuses; the pass returns a nil error and leaves the store
  as it was. \<open>n\<close> passes make \<open>n\<close> such refused creations and leave the store as it was.
\<close>

theorem Reconcile_converged:
  assumes "converged req s"
      and "microservices s (Request_NamespacedName req) = Some ms"
  shows "ret_err (Reconcile store_client req s) = None \<and>
         world (Reconcile store_client req s) = s \<and>
         filter mutating (calls (Reconcile store_client req s)) =
           [CallCreate (DeploymentObj (deployment req ms))] \<and>
         Reconcile_times n store_client req s =
           (concat (replicate n [CallGet (Request_NamespacedName req),
                                 CallCreate (DeploymentObj (deployment req ms))]), s)"
proof -
  from assms have d: "deployments s (Request_NamespacedName req) = Some (deployment req ms)"
    by (simp add: converged_def)
  show ?thesis
    using Reconcile_deployment_exists [OF assms(2) d]
      Reconcile_times_deployment_exists [OF assms(2) d, of n]
    by simp
qed

theorem Reconcile_converged_witness:
  "converged req_foo store_foo_converged \<and>
   world (Reconcile store_client req_foo store_foo_converged) = store_foo_converged \<and>
   Reconcile_times 2 store_client req_foo store_foo_converged =
     ([CallGet (Request_NamespacedName req_foo),
       CallCreate (DeploymentObj (deployment req_foo ms_foo)),
       CallGet (Request_NamespacedName req_foo),
       CallCreate (DeploymentObj (deployment req_foo ms_foo))], store_foo_converged)"
proof -
  have c: "converged req_foo store_foo_converged"
    by (simp add: converged_def store_foo_converged_def)
  have m: "microservices store_foo_converged (Request_NamespacedName req_foo) = Some ms_foo"
    by (simp add: store_foo_converged_def)
  have r: "replicate 2 x = [x, x]" for x :: "Call list"
    by (simp add: numeral_2_eq_2)
  from Reconcile_converged [OF c m, of 2] c show ?thesis
    by (simp add: r)
qed

text \<open>
  Claim C7 (status write on success), as stated: a pass that converges writes an observed
  generation and a Ready condition to the declared resource's status. It fails: the
  scenario's pass creates the three resources, returns a nil error, makes no status write,
  and the declared resource's status in the store is what it was (Progressing,
  generation 0).
\<close>

theorem Reconcile_status_counterexample:
  "ret_err (Reconcile store_client req_foo store_foo) = None \<and>
   created (calls (Reconcile store_client req_foo store_foo)) =
     [DeploymentObj (deployment req_foo ms_foo), ServiceObj (service req_foo),
      IngressObj (ingress req_foo ms_foo)] \<and>
   filter is_status_write (calls (Reconcile store_client req_foo store_foo)) = [] \<and>
   map_option MicroService_Status
     (microservices (world (Reconcile store_client req_foo store_foo))
        (Request_NamespacedName req_foo)) =
     Some \<lparr>MicroServiceStatus_Condition = ConditionProgressing,
           MicroServiceStatus_Message = '''',
           MicroServiceStatus_ObservedGeneration = 0\<rparr>"
  unfolding Reconcile_store_foo by (simp add: store_foo_converged_def ms_foo_def)

text \<open>
  Claim C7, amended. A pass whose fetch and three creations succeed makes exactly those
  four calls, in that order, and returns the zero Result and a nil error; it writes no
  status.
\<close>

theorem Reconcile_success_writes_no_status:
  assumes "Get r (Request_NamespacedName req) w0 = (Inr ms, w1)"
      and "Create r (DeploymentObj (deployment req ms)) w1 = (None, w2)"
      and "Create r (ServiceObj (service req)) w2 = (None, w3)"
      and "Create r (IngressObj (ingress req ms)) w3 = (None, w4)"
  shows "calls (Reconcile r req w0) =
           [CallGet (Request_NamespacedName req),
            CallCreate (DeploymentObj (deployment req ms)),
            CallCreate (ServiceObj (service req)),
            CallCreate (IngressObj (ingress req ms))] \<and>
         filter is_status_write (calls (Reconcile r req w0)) = [] \<and>
         ret_err (Reconcile r req w0) = None \<and>
         ret_Result (Reconcile r req w0) = Result_zero \<and>
         world (Reconcile r req w0) = w4"
  using assms by (simp add: Reconcile_def)

theorem Reconcile_success_writes_no_status_witness:
  "calls (Reconcile store_client req_foo store_foo) =
     [CallGet (Request_NamespacedName req_foo),
      CallCreate (DeploymentObj (deployment req_foo ms_foo)),
      CallCreate (ServiceObj (service req_foo)),
      CallCreate (IngressObj (ingress req_foo ms_foo))] \<and>
   filter is_status_write (calls (Reconcile store_client req_foo store_foo)) = [] \<and>
   ret_err (Reconcile store_client req_foo store_foo) = None"
proof -
  let ?w2 = "snd (Create store_client (DeploymentObj (deployment req_foo ms_foo)) store_foo)"
  let ?w3 = "snd (Create store_client (ServiceObj (service req_foo)) ?w2)"
  let ?w4 = "snd (Create store_client (IngressObj (ingress req_foo ms_foo)) ?w3)"
  have g: "Get store_client (Request_NamespacedName req_foo) store_foo = (Inr ms_foo, store_foo)"
    by (simp add: store_Get_def store_foo_def store_empty_def)
  have d: "Create store_client (DeploymentObj (deployment req_foo ms_foo)) store_foo = (None, ?w2)"
    by (simp add: store_foo_def store_empty_def)
  have s: "Create store_client (ServiceObj (service req_foo)) ?w2 = (None, ?w3)"
    by (simp add: store_foo_def store_empty_def)
  have i: "Create store_client (IngressObj (ingress req_foo ms_foo)) ?w3 = (None, ?w4)"
    by (simp add: store_foo_def store_empty_def)
  from Reconcile_success_writes_no_status [OF g d s i] show ?thesis by simp
qed

subsection \<open>Failed creations\<close>

text \<open>
  Claim C2 (error aggregation), as stated: no failed creation is suppressed while the pass
  reports success, and all three creations are attempted. It fails: when the store refuses
  the creation of the Deployment, the pass returns a nil error and has attempted neither
  the Service nor the Ingress.
\<close>

theorem Reconcile_deployment_failure_counterexample:
  "fst (Create (refusing_client (StatusError StatusReasonForbidden))
          (DeploymentObj (deployment req_foo ms_foo)) store_foo) =
     Some (StatusError StatusReasonForbidden) \<and>
   ret_err (Reconcile (refusing_client (StatusError StatusReasonForbidden)) req_foo store_foo) = None \<and>
   created (calls (Reconcile (refusing_client (StatusError StatusReasonForbidden)) req_foo store_foo)) =
     [DeploymentObj (deployment req_foo ms_foo)]"
  by (simp add: Reconcile_def refusing_client_def store_Get_def store_foo_def store_empty_def)

text \<open>
  Claim C2, amended. After a successful fetch the creations are attempted one after the
  other, Deployment, Service, Ingress, and the pass returns at the first that fails
  without attempting the later ones: nothing is aggregated. A failure of the Service
  creation is the error the pass returns. (\<open>ed\<close>, \<open>es\<close> and \<open>ei\<close> are what the three
  creations answer, each in the world the previous one left.)
\<close>

theorem Reconcile_stops_at_first_failure:
  assumes "Get r (Request_NamespacedName req) w0 = (Inr ms, w1)"
      and "Create r (DeploymentObj (deployment req ms)) w1 = (ed, w2)"
      and "Create r (ServiceObj (service req)) w2 = (es, w3)"
      and "Create r (IngressObj (ingress req ms)) w3 = (ei, w4)"
  shows "created (calls (Reconcile r req w0)) =
           (if ed \<noteq> None then [DeploymentObj (deployment req ms)]
            else if es \<noteq> None
              then [DeploymentObj (deployment req ms), ServiceObj (service req)]
              else [DeploymentObj (deployment req ms), ServiceObj (service req),
                    IngressObj (ingress req ms)]) \<and>
         (ed = None \<longrightarrow> es \<noteq> None \<longrightarrow> ret_err (Reconcile r req w0) = es)"
  using assms by (auto simp: Reconcile_def split: option.splits)

theorem Reconcile_stops_at_first_failure_witness:
  "created (calls (Reconcile store_client req_foo store_foo_service)) =
     [DeploymentObj (deployment req_foo ms_foo), ServiceObj (service req_foo)] \<and>
   ret_err (Reconcile store_client req_foo store_foo_service) =
     Some (StatusError StatusReasonAlreadyExists)"
proof -
  let ?w2 = "snd (Create store_client (DeploymentObj (deployment req_foo ms_foo)) store_foo_service)"
  let ?w3 = "snd (Create store_client (ServiceObj (service req_foo)) ?w2)"
  have g: "Get store_client (Request_NamespacedName req_foo) store_foo_service =
             (Inr ms_foo, store_foo_service)"
    by (simp add: store_Get_def store_foo_service_def store_foo_def store_empty_def)
  have d: "Create store_client (DeploymentObj (deployment req_foo ms_foo)) store_foo_service =
             (None, ?w2)"
    by (simp add: store_foo_service_def store_foo_def store_empty_def)
  have s: "Create store_client (ServiceObj (service req_foo)) ?w2 =
             (Some (StatusError StatusReasonAlreadyExists), ?w3)"
    by (simp add: store_foo_service_def store_foo_def store_empty_def)
  have i: "Create store_client (IngressObj (ingress req_foo ms_foo)) ?w3 =
             (fst (Create store_client (IngressObj (ingress req_foo ms_foo)) ?w3),
              snd (Create store_client (IngressObj (ingress req_foo ms_foo)) ?w3))"
    by simp
  from Reconcile_stops_at_first_failure [OF g d s i] show ?thesis by simp
qed

subsection \<open>What is built\<close>

text \<open>
  Claim C3 (the scenario). For the request default/foo, the declared resource with image
  app:1.0 and host foo.example.com, and no dependent resource in the store, one pass
  succeeds and creates exactly three objects, which the store then holds under
  default/foo: a Deployment named foo with one container of image app:1.0, container
  port 8080 and the Always pull policy; a Service named foo with port 80, target port
  8080 and the selector app = foo; an Ingress named foo with one rule for host
  foo.example.com, path /, backed by Service foo on port 80.
\<close>

theorem Reconcile_scenario_foo:
  "ret_err (Reconcile store_client req_foo store_foo) = None \<and>
   created (calls (Reconcile store_client req_foo store_foo)) =
     [DeploymentObj (deployment req_foo ms_foo), ServiceObj (service req_foo),
      IngressObj (ingress req_foo ms_foo)] \<and>
   deployments (world (Reconcile store_client req_foo store_foo)) =
     [Request_NamespacedName req_foo \<mapsto> deployment req_foo ms_foo] \<and>
   services (world (Reconcile store_client req_foo store_foo)) =
     [Request_NamespacedName req_foo \<mapsto> service req_foo] \<and>
   ingresses (world (Reconcile store_client req_foo store_foo)) =
     [Request_NamespacedName req_foo \<mapsto> ingress req_foo ms_foo] \<and>
   ObjectMeta_Name (Deployment_ObjectMeta (deployment req_foo ms_foo)) = ''foo'' \<and>
   ObjectMeta_Namespace (Deployment_ObjectMeta (deployment req_foo ms_foo)) = ''default'' \<and>
   PodSpec_Containers (PodTemplateSpec_Spec (DeploymentSpec_Template
       (Deployment_Spec (deployment req_foo ms_foo)))) =
     [\<lparr>Container_Name = ''foo'', Container_Image = ''app:1.0'',
       Container_ImagePullPolicy = ''Always'',
       Container_Ports = [\<lparr>ContainerPort_ContainerPort = 8080\<rparr>]\<rparr>] \<and>
   ObjectMeta_Name (Service_ObjectMeta (service req_foo)) = ''foo'' \<and>
   ObjectMeta_Namespace (Service_ObjectMeta (service req_foo)) = ''default'' \<and>
   ServiceSpec_Selector (Service_Spec (service req_foo)) = [''app'' \<mapsto> ''foo''] \<and>
   ServiceSpec_Ports (Service_Spec (service req_foo)) =
     [\<lparr>ServicePort_Name = ''foo'', ServicePort_Port = 80,
       ServicePort_TargetPort = IntVal 8080, ServicePort_Protocol = ''TCP''\<rparr>] \<and>
   ObjectMeta_Name (Ingress_ObjectMeta (ingress req_foo ms_foo)) = ''foo'' \<and>
   ObjectMeta_Namespace (Ingress_ObjectMeta (ingress req_foo ms_foo)) = ''default'' \<and>
   IngressSpec_Rules (Ingress_Spec (ingress req_foo ms_foo)) =
     [\<lparr>IngressRule_Host = ''foo.example.com'',
       IngressRule_IngressRuleValue =
         \<lparr>IngressRuleValue_HTTP =
            Some \<lparr>HTTPIngressRuleValue_Paths =
              [\<lparr>HTTPIngressPath_Path = ''/'',
                HTTPIngressPath_Backend =
                  \<lparr>IngressBackend_ServiceName = ''foo'',
                   IngressBackend_ServicePort = IntVal 80\<rparr>\<rparr>]\<rparr>\<rparr>\<rparr>]"
proof -
  have names: "Request_Name req_foo = ''foo''" "Request_Namespace req_foo = ''default''"
    by (simp_all add: Request_Name_def Request_Namespace_def req_foo_def)
  have d: "PodSpec_Containers (PodTemplateSpec_Spec (DeploymentSpec_Template
       (Deployment_Spec (deployment req_foo ms_foo)))) =
     [\<lparr>Container_Name = ''foo'', Container_Image = ''app:1.0'',
       Container_ImagePullPolicy = ''Always'',
       Container_Ports = [\<lparr>ContainerPort_ContainerPort = 8080\<rparr>]\<rparr>]"
    by (simp add: deployment_def names ms_foo_def)
  have dm: "ObjectMeta_Name (Deployment_ObjectMeta (deployment req_foo ms_foo)) = ''foo''"
     "ObjectMeta_Namespace (Deployment_ObjectMeta (deployment req_foo ms_foo)) = ''default''"
    by (simp_all add: deployment_def names)
  have s: "ObjectMeta_Name (Service_ObjectMeta (service req_foo)) = ''foo''"
    "ObjectMeta_Namespace (Service_ObjectMeta (service req_foo)) = ''default''"
    "ServiceSpec_Selector (Service_Spec (service req_foo)) = [''app'' \<mapsto> ''foo'']"
    "ServiceSpec_Ports (Service_Spec (service req_foo)) =
     [\<lparr>ServicePort_Name = ''foo'', ServicePort_Port = 80,
       ServicePort_TargetPort = IntVal 8080, ServicePort_Protocol = ''TCP''\<rparr>]"
    by (simp_all add: service_def names podLabels_def FromInt_def ProtocolTCP_def)
  have i: "ObjectMeta_Name (Ingress_ObjectMeta (ingress req_foo ms_foo)) = ''foo''"
     "ObjectMeta_Namespace (Ingress_ObjectMeta (ingress req_foo ms_foo)) = ''default''"
     "IngressSpec_Rules (Ingress_Spec (ingress req_foo ms_foo)) =
     [\<lparr>IngressRule_Host = ''foo.example.com'',
       IngressRule_IngressRuleValue =
         \<lparr>IngressRuleValue_HTTP =
            Some \<lparr>HTTPIngressRuleValue_Paths =
              [\<lparr>HTTPIngressPath_Path = ''/'',
                HTTPIngressPath_Backend =
                  \<lparr>IngressBackend_ServiceName = ''foo'',
                   IngressBackend_ServicePort = IntVal 80\<rparr>\<rparr>]\<rparr>\<rparr>\<rparr>]"
    by (simp_all add: ingress_def names FromInt_def ms_foo_def)
  have w: "deployments store_foo_converged =
             [Request_NamespacedName req_foo \<mapsto> deployment req_foo ms_foo]"
     "services store_foo_converged = [Request_NamespacedName req_foo \<mapsto> service req_foo]"
     "ingresses store_foo_converged =
             [Request_NamespacedName req_foo \<mapsto> ingress req_foo ms_foo]"
    by (simp_all add: store_foo_converged_def)
  show ?thesis
    unfolding Reconcile_store_foo using d dm s i w by simp
qed

text \<open>
  Claim C4 (conditional pull secret), as stated: the Deployment carries a pull secret if
  and only if the spec's secret is not empty. It fails: the scenario's declared resource
  has the empty secret, and the Deployment built for it has a pull-secret reference.
\<close>

theorem deployment_pull_secret_counterexample:
  "MicroServiceSpec_Secret (MicroService_Spec ms_foo) = [] \<and>
   PodSpec_ImagePullSecrets (PodTemplateSpec_Spec (DeploymentSpec_Template
     (Deployment_Spec (deployment req_foo ms_foo)))) \<noteq> []"
  by (simp add: deployment_def ms_foo_def)

text \<open>
  Claim C4, amended. For every spec, the Deployment built for it carries exactly one
  pull-secret reference, whose name is the spec's secret; for an empty secret that is a
  reference with the empty name.
\<close>

theorem deployment_pull_secret:
  "PodSpec_ImagePullSecrets (PodTemplateSpec_Spec (DeploymentSpec_Template
     (Deployment_Spec (deployment req ms)))) =
   [\<lparr>LocalObjectReference_Name = MicroServiceSpec_Secret (MicroService_Spec ms)\<rparr>]"
  by (simp add: deployment_def)

text \<open>
  Claim C8 (owner link), as stated: every dependent resource the reconciler creates
  carries an owner link to its declared resource. It fails: the three objects the
  scenario's pass creates have no owner reference at all.
\<close>

theorem Reconcile_owner_link_counterexample:
  "map (ObjectMeta_OwnerReferences \<circ> Object_ObjectMeta)
     (created (calls (Reconcile store_client req_foo store_foo))) = [[], [], []]"
  unfolding Reconcile_store_foo by (simp add: deployment_def service_def ingress_def)

text \<open>
  Claim C8, amended. Every dependent resource the reconciler creates has an empty list of
  owner references; what ties it to its declared resource is that it bears the request's
  name and namespace.
\<close>

theorem Reconcile_created_meta:
  "\<forall>obj \<in> set (created (calls (Reconcile r req w))).
     ObjectMeta_OwnerReferences (Object_ObjectMeta obj) = [] \<and>
     ObjectMeta_Name (Object_ObjectMeta obj) = Request_Name req \<and>
     ObjectMeta_Namespace (Object_ObjectMeta obj) = Request_Namespace req"
proof -
  have "ObjectMeta_OwnerReferences (Deployment_ObjectMeta (deployment req ms)) = [] \<and>
        ObjectMeta_Name (Deployment_ObjectMeta (deployment req ms)) = Request_Name req \<and>
        ObjectMeta_Namespace (Deployment_ObjectMeta (deployment req ms)) = Request_Namespace req"
    for ms by (simp add: deployment_def)
  moreover have "ObjectMeta_OwnerReferences (Service_ObjectMeta (service req)) = [] \<and>
        ObjectMeta_Name (Service_ObjectMeta (service req)) = Request_Name req \<and>
        ObjectMeta_Namespace (Service_ObjectMeta (service req)) = Request_Namespace req"
    by (simp add: service_def)
  moreover have "ObjectMeta_OwnerReferences (Ingress_ObjectMeta (ingress req ms)) = [] \<and>
        ObjectMeta_Name (Ingress_ObjectMeta (ingress req ms)) = Request_Name req \<and>
        ObjectMeta_Namespace (Ingress_ObjectMeta (ingress req ms)) = Request_Namespace req"
    for ms by (simp add: ingress_def)
  ultimately show ?thesis
    by (simp add: Reconcile_def Let_def split: prod.splits sum.splits option.splits)
qed

theorem Reconcile_created_meta_witness:
  "length (created (calls (Reconcile store_client req_foo store_foo))) = 3 \<and>
   list_all (\<lambda>obj. ObjectMeta_OwnerReferences (Object_ObjectMeta obj) = [] \<and>
               ObjectMeta_Name (Object_ObjectMeta obj) = ''foo'' \<and>
               ObjectMeta_Namespace (Object_ObjectMeta obj) = ''default'')
     (created (calls (Reconcile store_client req_foo store_foo)))"
proof -
  have names: "Request_Name req_foo = ''foo''" "Request_Namespace req_foo = ''default''"
    by (simp_all add: Request_Name_def Request_Namespace_def req_foo_def)
  have l: "length (created (calls (Reconcile store_client req_foo store_foo))) = 3"
    unfolding Reconcile_store_foo by simp
  from Reconcile_created_meta [of store_client req_foo store_foo] l show ?thesis
    by (simp add: names list_all_iff)
qed

end
